theory Spec2Isabelle
  imports Complex_Main "HOL-Library.Word"
begin

unbundle bit_operations_syntax

section \<open>The DS3231 real time clock driver\<close>

text \<open>
  A shallow embedding of the driver class \<open>lr::DS3231\<close> (\<open>DS3231.hpp\<close> and its
  implementation file). The driver is a thin layer between a calendar value and the
  register file of the chip: every member function builds or interprets a small block of
  bytes and issues one or two transactions on a register-addressed two-wire bus.

  Bytes are \<open>8 word\<close>, the year and the year base are \<open>16 word\<close>. Where C++ promotes the
  operands of an expression to \<open>int\<close> (at least 32 bits wide on the driver's targets), the
  model computes on \<open>int\<close> through \<open>uint\<close> and narrows the result where the source stores
  it into a narrower type.
\<close>

type_synonym u8 = "8 word"
type_synonym u16 = "16 word"

subsection \<open>Collaborators outside the driver\<close>

text \<open>
  Modelled from the spec: the BCD helpers of \<open>hal/BCD.hpp\<close>, which the driver includes
  but which are not part of its sources. The spec treats them as pure functions on a
  byte, "each decimal digit (0-9) stored in 4 bits, two digits per byte": the tens digit
  in the high nibble, the units digit in the low nibble.
\<close>

definition convertBinToBcd :: "u8 \<Rightarrow> u8" where
  "convertBinToBcd bin = (bin mod 10) + push_bit 4 (bin div 10)"

definition convertBcdToBin :: "u8 \<Rightarrow> u8" where
  "convertBcdToBin bcd = (bcd AND 0x0f) + (drop_bit 4 bcd) * 10"

text \<open>
  Modelled from the spec: the calendar value \<open>lr::DateTime\<close> of
  \<open>hal-common/DateTime.hpp\<close>, "an opaque value type supplied and consumed by the
  driver". The driver only uses its seven accessors and the unchecked constructor
  \<open>DateTime::fromUncheckedValues\<close>, so the value is a record whose fields are named after
  the accessors. The constructor stores its arguments as they are; its year parameter
  is a 16-bit unsigned integer, so the \<open>int\<close> the driver computes is narrowed.
\<close>

record DateTime =
  getYear :: u16
  getMonth :: u8
  getDay :: u8
  getHour :: u8
  getMinute :: u8
  getSecond :: u8
  getDayOfWeek :: u8

definition fromUncheckedValues :: "int \<Rightarrow> u8 \<Rightarrow> u8 \<Rightarrow> u8 \<Rightarrow> u8 \<Rightarrow> u8 \<Rightarrow> u8 \<Rightarrow> DateTime" where
  "fromUncheckedValues y mo d h mi s dow =
     \<lparr>getYear = word_of_int y, getMonth = mo, getDay = d, getHour = h,
      getMinute = mi, getSecond = s, getDayOfWeek = dow\<rparr>"

text \<open>The outcome of a driver call (\<open>DS3231::Status\<close>, an alias of \<open>CallStatus\<close>).\<close>

datatype CallStatus = Success | Error

subsection \<open>The register map\<close>

datatype Register =
    Seconds | Minutes | Hours | DayOfWeek | Day | MonthCentury | Year
  | Alarm1Seconds | Alarm1Minutes | Alarm1Hours | Alarm1DayDate
  | Alarm2Minutes | Alarm2Hours | Alarm2DayDate
  | Control | Status | AgingOffset | TemperatureHigh | TemperatureLow

text \<open>The enumerator values of \<open>enum class Register : uint8_t\<close>.\<close>

fun Register_value :: "Register \<Rightarrow> u8" where
  "Register_value Seconds = 0x00"
| "Register_value Minutes = 0x01"
| "Register_value Hours = 0x02"
| "Register_value DayOfWeek = 0x03"
| "Register_value Day = 0x04"
| "Register_value MonthCentury = 0x05"
| "Register_value Year = 0x06"
| "Register_value Alarm1Seconds = 0x07"
| "Register_value Alarm1Minutes = 0x08"
| "Register_value Alarm1Hours = 0x09"
| "Register_value Alarm1DayDate = 0x0a"
| "Register_value Alarm2Minutes = 0x0b"
| "Register_value Alarm2Hours = 0x0c"
| "Register_value Alarm2DayDate = 0x0d"
| "Register_value Control = 0x0e"
| "Register_value Status = 0x0f"
| "Register_value AgingOffset = 0x10"
| "Register_value TemperatureHigh = 0x11"
| "Register_value TemperatureLow = 0x12"

text \<open>\<open>oneBit8\<close> of \<open>hal-common/BitTools.hpp\<close>: the byte with only the given bit set.\<close>

definition oneBit8 :: "nat \<Rightarrow> u8" where
  "oneBit8 n = push_bit n 1"

datatype ControlFlag = A1IE | A2IE | INTCN | RS1 | RS2 | CONV | BBSQW | EOSC

fun ControlFlag_value :: "ControlFlag \<Rightarrow> u8" where
  "ControlFlag_value A1IE = oneBit8 0"
| "ControlFlag_value A2IE = oneBit8 1"
| "ControlFlag_value INTCN = oneBit8 2"
| "ControlFlag_value RS1 = oneBit8 3"
| "ControlFlag_value RS2 = oneBit8 4"
| "ControlFlag_value CONV = oneBit8 5"
| "ControlFlag_value BBSQW = oneBit8 6"
| "ControlFlag_value EOSC = oneBit8 7"

datatype StatusFlag = A1F | A2F | BSY | EN32kHz | OSF

fun StatusFlag_value :: "StatusFlag \<Rightarrow> u8" where
  "StatusFlag_value A1F = oneBit8 0"
| "StatusFlag_value A2F = oneBit8 1"
| "StatusFlag_value BSY = oneBit8 2"
| "StatusFlag_value EN32kHz = oneBit8 3"
| "StatusFlag_value OSF = oneBit8 7"

subsection \<open>The bus\<close>

text \<open>
  Modelled from the spec: the register-addressed bus client
  \<open>WireMasterRegisterChip\<close> of \<open>hal-common/WireMasterChipRegister.hpp\<close>, which the
  driver owns but which is not part of its sources. The spec gives its contract: a
  batched read and a batched write of contiguous registers, a bit test that answers
  \<open>Set\<close> or \<open>Zero\<close>, a bit change with an operation, and a masked field write, each
  reporting success or failure.

  The bus is a state: the register file of the chip, the outcome of each coming
  transaction (\<open>True\<close> where it succeeds; a bus with no scripted outcome left succeeds),
  and the trace of the transactions issued so far. A failed transaction leaves the
  register file as it was.
\<close>

datatype BusStatus = BusSuccess | BusError

datatype BitResult = BitResult_Zero | BitResult_Set

datatype BitOperation = BitOperation_Set | BitOperation_Clear

datatype transaction =
    ReadRegisterData u8 nat
  | WriteRegisterData u8 "u8 list"
  | TestBits u8 u8
  | ChangeBits u8 u8 BitOperation
  | WriteBits u8 u8 u8

record WireMaster =
  chip :: "nat \<Rightarrow> u8"
  outcomes :: "bool list"
  trace :: "transaction list"

definition isSuccessful :: "BusStatus \<Rightarrow> bool" where
  "isSuccessful s = (s = BusSuccess)"

definition hasError :: "BusStatus \<Rightarrow> bool" where
  "hasError s = (\<not> isSuccessful s)"

text \<open>Every transaction is recorded in the trace and consumes one scripted outcome.\<close>

definition transfer :: "transaction \<Rightarrow> WireMaster \<Rightarrow> bool \<times> WireMaster" where
  "transfer t b =
     (case outcomes b of
        [] \<Rightarrow> (True, b\<lparr>trace := trace b @ [t]\<rparr>)
      | ok # rest \<Rightarrow> (ok, b\<lparr>outcomes := rest, trace := trace b @ [t]\<rparr>))"

text \<open>Storing a block of bytes into consecutive registers, from address \<open>a\<close> on.\<close>

fun store_bytes :: "nat \<Rightarrow> u8 list \<Rightarrow> (nat \<Rightarrow> u8) \<Rightarrow> (nat \<Rightarrow> u8)" where
  "store_bytes a [] m = m"
| "store_bytes a (x # xs) m = store_bytes (Suc a) xs (m(a := x))"

definition readRegisterData :: "Register \<Rightarrow> nat \<Rightarrow> WireMaster \<Rightarrow> (BusStatus \<times> u8 list) \<times> WireMaster" where
  "readRegisterData reg n b =
     (case transfer (ReadRegisterData (Register_value reg) n) b of
        (ok, b') \<Rightarrow>
          if ok then ((BusSuccess, map (\<lambda>i. chip b' (unat (Register_value reg) + i)) [0..<n]), b')
          else ((BusError, []), b'))"

definition writeRegisterData :: "Register \<Rightarrow> u8 list \<Rightarrow> WireMaster \<Rightarrow> BusStatus \<times> WireMaster" where
  "writeRegisterData reg bytes b =
     (case transfer (WriteRegisterData (Register_value reg) bytes) b of
        (ok, b') \<Rightarrow>
          if ok then (BusSuccess, b'\<lparr>chip := store_bytes (unat (Register_value reg)) bytes (chip b')\<rparr>)
          else (BusError, b'))"

definition testBits :: "Register \<Rightarrow> u8 \<Rightarrow> WireMaster \<Rightarrow> (BusStatus \<times> BitResult) \<times> WireMaster" where
  "testBits reg bitMask b =
     (case transfer (TestBits (Register_value reg) bitMask) b of
        (ok, b') \<Rightarrow>
          if ok then
            ((BusSuccess,
              if chip b' (unat (Register_value reg)) AND bitMask = 0 then BitResult_Zero
              else BitResult_Set), b')
          else ((BusError, BitResult_Zero), b'))"

definition changeBits :: "Register \<Rightarrow> u8 \<Rightarrow> BitOperation \<Rightarrow> WireMaster \<Rightarrow> BusStatus \<times> WireMaster" where
  "changeBits reg bitMask operation b =
     (case transfer (ChangeBits (Register_value reg) bitMask operation) b of
        (ok, b') \<Rightarrow>
          if ok then
            (BusSuccess,
             b'\<lparr>chip := (chip b')(unat (Register_value reg) :=
                  (case operation of
                     BitOperation_Set \<Rightarrow> chip b' (unat (Register_value reg)) OR bitMask
                   | BitOperation_Clear \<Rightarrow> chip b' (unat (Register_value reg)) AND NOT bitMask))\<rparr>)
          else (BusError, b'))"

definition writeBits :: "Register \<Rightarrow> u8 \<Rightarrow> u8 \<Rightarrow> WireMaster \<Rightarrow> BusStatus \<times> WireMaster" where
  "writeBits reg bitMask v b =
     (case transfer (WriteBits (Register_value reg) bitMask v) b of
        (ok, b') \<Rightarrow>
          if ok then
            (BusSuccess,
             b'\<lparr>chip := (chip b')(unat (Register_value reg) :=
                  (chip b' (unat (Register_value reg)) AND NOT bitMask) OR (v AND bitMask))\<rparr>)
          else (BusError, b'))"

subsection \<open>The driver\<close>

text \<open>\<open>DS3231::statusFromBus\<close>.\<close>

definition statusFromBus :: "BusStatus \<Rightarrow> CallStatus" where
  "statusFromBus busStatus = (if isSuccessful busStatus then Success else Error)"

text \<open>
  \<open>struct DateTimeRegister\<close>: the seven time registers in one block. The source reads
  and writes the struct as seven raw bytes, in the order of its fields.
\<close>

record DateTimeRegister =
  r_seconds :: u8
  r_minutes :: u8
  r_hours :: u8
  r_dayOfWeek :: u8
  r_day :: u8
  r_month :: u8
  r_year :: u8

definition DateTimeRegister_bytes :: "DateTimeRegister \<Rightarrow> u8 list" where
  "DateTimeRegister_bytes d =
     [r_seconds d, r_minutes d, r_hours d, r_dayOfWeek d, r_day d, r_month d, r_year d]"

definition DateTimeRegister_of_bytes :: "u8 list \<Rightarrow> DateTimeRegister" where
  "DateTimeRegister_of_bytes bs =
     \<lparr>r_seconds = bs ! 0, r_minutes = bs ! 1, r_hours = bs ! 2, r_dayOfWeek = bs ! 3,
      r_day = bs ! 4, r_month = bs ! 5, r_year = bs ! 6\<rparr>"

text \<open>
  The conversion inside \<open>getDateTime\<close>, from the register block to the calendar value.
\<close>

definition decodeDateTime :: "u16 \<Rightarrow> DateTimeRegister \<Rightarrow> DateTime" where
  "decodeDateTime yearBase data =
     fromUncheckedValues
       (uint (ucast (convertBcdToBin (r_year data)) :: u16) +
          (if r_month data AND push_bit 7 1 \<noteq> 0 then uint yearBase + 100 else uint yearBase))
       (convertBcdToBin (r_month data AND 0x1f))
       (convertBcdToBin (r_day data AND 0x3f))
       (convertBcdToBin (r_hours data AND 0x3f))
       (convertBcdToBin (r_minutes data AND 0x7f))
       (convertBcdToBin (r_seconds data AND 0x7f))
       (r_dayOfWeek data AND 0x7)"

text \<open>
  \<open>DS3231::getDateTime\<close>. The out-parameter is \<open>Some\<close> value where the source assigns
  it and \<open>None\<close> where the source leaves the caller's variable untouched.
\<close>

definition getDateTime :: "u16 \<Rightarrow> WireMaster \<Rightarrow> CallStatus \<times> DateTime option \<times> WireMaster" where
  "getDateTime yearBase b =
     (case readRegisterData Seconds 7 b of
        ((status, bytes), b') \<Rightarrow>
          if isSuccessful status then
            (Success, Some (decodeDateTime yearBase (DateTimeRegister_of_bytes bytes)), b')
          else (Error, None, b'))"

text \<open>The register block \<open>setDateTime\<close> prepares once the year has passed its check.\<close>

definition encodeDateTime :: "u16 \<Rightarrow> DateTime \<Rightarrow> DateTimeRegister" where
  "encodeDateTime yearBase dateTime =
     \<lparr>r_seconds = convertBinToBcd (getSecond dateTime),
      r_minutes = convertBinToBcd (getMinute dateTime),
      r_hours = convertBinToBcd (getHour dateTime),
      r_dayOfWeek = getDayOfWeek dateTime,
      r_day = convertBinToBcd (getDay dateTime),
      r_month = convertBinToBcd (getMonth dateTime) OR
        (if uint (getYear dateTime) \<ge> uint yearBase + 100 then push_bit 7 1 else 0),
      r_year = convertBinToBcd (word_of_int (uint (getYear dateTime) mod 100))\<rparr>"

text \<open>\<open>DS3231::setDateTime\<close>.\<close>

definition setDateTime :: "u16 \<Rightarrow> DateTime \<Rightarrow> WireMaster \<Rightarrow> CallStatus \<times> WireMaster" where
  "setDateTime yearBase dateTime b =
     (let newYear = getYear dateTime in
      if uint newYear < uint yearBase \<or> uint newYear \<ge> uint yearBase + 200 then (Error, b)
      else
        (case writeRegisterData Seconds (DateTimeRegister_bytes (encodeDateTime yearBase dateTime)) b of
           (status, b') \<Rightarrow> (statusFromBus status, b')))"

text \<open>
  \<open>DS3231::isRunning\<close>. The second component is the out-parameter: \<open>Some\<close> value where
  the source assigns the caller's variable, \<open>None\<close> where it returns before doing so.
\<close>

definition isRunning :: "WireMaster \<Rightarrow> CallStatus \<times> bool option \<times> WireMaster" where
  "isRunning b =
     (case testBits Status (StatusFlag_value OSF) b of
        ((status, bitResult), b1) \<Rightarrow>
          if hasError status then (statusFromBus status, None, b1)
          else if bitResult = BitResult_Set then (statusFromBus status, Some False, b1)
          else
            (case testBits Control (ControlFlag_value EOSC) b1 of
               ((status2, bitResult2), b2) \<Rightarrow>
                 if hasError status2 then (statusFromBus status2, None, b2)
                 else (statusFromBus status2, Some (bitResult2 = BitResult_Zero), b2)))"

text \<open>\<open>DS3231::enableOscillator\<close>.\<close>

definition enableOscillator :: "WireMaster \<Rightarrow> CallStatus \<times> WireMaster" where
  "enableOscillator b =
     (case changeBits Control (ControlFlag_value EOSC) BitOperation_Clear b of
        (status, b1) \<Rightarrow>
          if hasError status then (statusFromBus status, b1)
          else
            (case changeBits Status (StatusFlag_value OSF) BitOperation_Clear b1 of
               (status2, b2) \<Rightarrow> (statusFromBus status2, b2)))"

text \<open>
  \<open>enum class AlarmMode : uint8_t\<close>. \<open>OncePerMinute\<close> is declared with the value of
  \<open>SecondsMatch\<close>; the driver only ever looks at the value of a mode.
\<close>

datatype AlarmMode =
    OncePerSecond | SecondsMatch | OncePerMinute | MinutesSeconds
  | HoursMinutesSeconds | DateHoursMinutesSeconds | DayHoursMinutesSeconds

fun AlarmMode_value :: "AlarmMode \<Rightarrow> u8" where
  "AlarmMode_value OncePerSecond = 0b01111"
| "AlarmMode_value SecondsMatch = 0b01110"
| "AlarmMode_value OncePerMinute = 0b01110"
| "AlarmMode_value MinutesSeconds = 0b01100"
| "AlarmMode_value HoursMinutesSeconds = 0b01000"
| "AlarmMode_value DateHoursMinutesSeconds = 0b00000"
| "AlarmMode_value DayHoursMinutesSeconds = 0b10000"

text \<open>\<open>struct AlarmRegister\<close>: the four alarm registers in one block.\<close>

record AlarmRegister =
  a_seconds :: u8
  a_minutes :: u8
  a_hours :: u8
  a_day :: u8

definition AlarmRegister_bytes :: "AlarmRegister \<Rightarrow> u8 list" where
  "AlarmRegister_bytes d = [a_seconds d, a_minutes d, a_hours d, a_day d]"

text \<open>
  \<open>DS3231::fillAlarmRegister\<close>, returning the block it fills. The argument
  \<open>getDayOfWeek() + 1\<close> is narrowed to a byte when it is passed to the BCD helper.
\<close>

definition fillAlarmRegister :: "AlarmMode \<Rightarrow> DateTime \<Rightarrow> AlarmRegister" where
  "fillAlarmRegister alarmMode dateTime =
     \<lparr>a_seconds = convertBinToBcd (getSecond dateTime) OR
        (if AlarmMode_value alarmMode AND 0b00001 \<noteq> 0 then 0x80 else 0x00),
      a_minutes = convertBinToBcd (getMinute dateTime) OR
        (if AlarmMode_value alarmMode AND 0b00010 \<noteq> 0 then 0x80 else 0x00),
      a_hours = convertBinToBcd (getHour dateTime) OR
        (if AlarmMode_value alarmMode AND 0b00100 \<noteq> 0 then 0x80 else 0x00),
      a_day =
        (if AlarmMode_value alarmMode = AlarmMode_value DayHoursMinutesSeconds
         then convertBinToBcd (getDayOfWeek dateTime + 1) OR 0b01000000
         else convertBinToBcd (getDay dateTime)) OR
        (if AlarmMode_value alarmMode AND 0b01000 \<noteq> 0 then 0x80 else 0x00)\<rparr>"

text \<open>\<open>DS3231::setAlarm1\<close>: the whole block, from the first register of alarm 1 on.\<close>

definition setAlarm1 :: "AlarmMode \<Rightarrow> DateTime \<Rightarrow> WireMaster \<Rightarrow> CallStatus \<times> WireMaster" where
  "setAlarm1 alarmMode dateTime b =
     (case writeRegisterData Alarm1Seconds
             (AlarmRegister_bytes (fillAlarmRegister alarmMode dateTime)) b of
        (status, b') \<Rightarrow> (statusFromBus status, b'))"

text \<open>
  \<open>DS3231::setAlarm2\<close>: the block from its second byte on, one byte shorter, from the
  first register of alarm 2 on.
\<close>

definition setAlarm2 :: "AlarmMode \<Rightarrow> DateTime \<Rightarrow> WireMaster \<Rightarrow> CallStatus \<times> WireMaster" where
  "setAlarm2 alarmMode dateTime b =
     (case writeRegisterData Alarm2Minutes
             (drop 1 (AlarmRegister_bytes (fillAlarmRegister alarmMode dateTime))) b of
        (status, b') \<Rightarrow> (statusFromBus status, b'))"

text \<open>
  \<open>DS3231::isAlarm1Set\<close> and \<open>DS3231::isAlarm2Set\<close>. The status of the clearing
  transaction is dropped by the source; only the bus it leaves behind is kept.
\<close>

definition isAlarm1Set :: "WireMaster \<Rightarrow> CallStatus \<times> bool option \<times> WireMaster" where
  "isAlarm1Set b =
     (case testBits Status (StatusFlag_value A1F) b of
        ((status, bitResult), b1) \<Rightarrow>
          if hasError status then (statusFromBus status, None, b1)
          else
            (let isSet = (bitResult = BitResult_Set);
                 b2 = (if isSet
                       then snd (changeBits Status (StatusFlag_value A1F) BitOperation_Clear b1)
                       else b1)
             in (statusFromBus status, Some isSet, b2)))"

definition isAlarm2Set :: "WireMaster \<Rightarrow> CallStatus \<times> bool option \<times> WireMaster" where
  "isAlarm2Set b =
     (case testBits Status (StatusFlag_value A2F) b of
        ((status, bitResult), b1) \<Rightarrow>
          if hasError status then (statusFromBus status, None, b1)
          else
            (let isSet = (bitResult = BitResult_Set);
                 b2 = (if isSet
                       then snd (changeBits Status (StatusFlag_value A2F) BitOperation_Clear b1)
                       else b1)
             in (statusFromBus status, Some isSet, b2)))"

text \<open>
  \<open>enum class IntPinMode : uint8_t\<close>, with the values the header declares: three
  enumerators share \<open>0b00101\<close> and two share \<open>0b00000\<close>.
\<close>

datatype IntPinMode =
    Disabled | Alarm1 | Alarm2 | Alarm12
  | SquareWave1Hz | SquareWave1024Hz | SquareWave4096Hz | SquareWave8192Hz

fun IntPinMode_value :: "IntPinMode \<Rightarrow> u8" where
  "IntPinMode_value Disabled = 0b00000"
| "IntPinMode_value Alarm1 = 0b00101"
| "IntPinMode_value Alarm2 = 0b00101"
| "IntPinMode_value Alarm12 = 0b00101"
| "IntPinMode_value SquareWave1Hz = 0b00000"
| "IntPinMode_value SquareWave1024Hz = 0b01000"
| "IntPinMode_value SquareWave4096Hz = 0b10000"
| "IntPinMode_value SquareWave8192Hz = 0b11000"

text \<open>\<open>DS3231::setIntPinMode\<close>.\<close>

definition setIntPinMode :: "IntPinMode \<Rightarrow> WireMaster \<Rightarrow> CallStatus \<times> WireMaster" where
  "setIntPinMode mode b =
     (case writeBits Control 0b00011111 (IntPinMode_value mode) b of
        (status, b') \<Rightarrow> (statusFromBus status, b'))"

text \<open>
  \<open>struct TemperatureRegister\<close>: a signed high byte and an unsigned low byte, read as
  two raw bytes.
\<close>

record TemperatureRegister =
  t_high :: u8
  t_low :: u8

definition TemperatureRegister_of_bytes :: "u8 list \<Rightarrow> TemperatureRegister" where
  "TemperatureRegister_of_bytes bs = \<lparr>t_high = bs ! 0, t_low = bs ! 1\<rparr>"

text \<open>
  The conversion inside \<open>getTemperature\<close>. Every value it can produce is a multiple of
  a quarter between \<open>-128.75\<close> and \<open>127.75\<close>; such numbers and the three operations on
  them are exact in single precision, so the \<open>float\<close> of the source is a \<open>real\<close> here.
\<close>

definition decodeTemperature :: "TemperatureRegister \<Rightarrow> real" where
  "decodeTemperature data =
     (let result = real_of_int (sint (t_high data));
          fraction = real (unat (drop_bit 6 (t_low data))) * 0.25
      in if result < 0 then result - fraction else result + fraction)"

text \<open>\<open>DS3231::getTemperature\<close>.\<close>

definition getTemperature :: "WireMaster \<Rightarrow> CallStatus \<times> real option \<times> WireMaster" where
  "getTemperature b =
     (case readRegisterData TemperatureHigh 2 b of
        ((status, bytes), b') \<Rightarrow>
          if status = BusSuccess then
            (Success, Some (decodeTemperature (TemperatureRegister_of_bytes bytes)), b')
          else (Error, None, b'))"

subsection \<open>Reading the bus state\<close>

text \<open>
  \<open>succeeds n b\<close>: the transaction issued after \<open>n\<close> others on the bus \<open>b\<close> is
  scripted to succeed.
\<close>

definition succeeds :: "nat \<Rightarrow> WireMaster \<Rightarrow> bool" where
  "succeeds n b = (if n < length (outcomes b) then outcomes b ! n else True)"

text \<open>Concrete buses and dates on which the results below are evaluated.\<close>

definition bus_with :: "(nat \<Rightarrow> u8) \<Rightarrow> bool list \<Rightarrow> WireMaster" where
  "bus_with regs oks = \<lparr>chip = regs, outcomes = oks, trace = []\<rparr>"

definition idle_bus :: WireMaster where
  "idle_bus = bus_with (\<lambda>a. 0) []"

definition date_in_year :: "u16 \<Rightarrow> DateTime" where
  "date_in_year y =
     \<lparr>getYear = y, getMonth = 11, getDay = 2, getHour = 7,
      getMinute = 22, getSecond = 59, getDayOfWeek = 1\<rparr>"

section \<open>Properties\<close>

lemmas bus_defs = transfer_def readRegisterData_def writeRegisterData_def testBits_def
  changeBits_def writeBits_def isSuccessful_def hasError_def statusFromBus_def succeeds_def
  oneBit8_def

lemmas fixture_defs = bus_with_def idle_bus_def date_in_year_def

subsection \<open>The year check of \<open>setDateTime\<close>\<close>

text \<open>
  Claim C2. \<open>setDateTime\<close> returns \<open>Error\<close> and leaves the bus as it found it, with no
  transaction issued, whenever the year is below the year base or at least the year base
  plus 200. For every year from the year base up to the year base plus 199 it passes the
  check and issues exactly one transaction, the batched write of the seven encoded bytes
  from the seconds register on, and returns the status of that write.
\<close>

theorem setDateTime_year_check:
  "(uint (getYear dateTime) < uint yearBase \<or> uint yearBase + 200 \<le> uint (getYear dateTime)
      \<longrightarrow> setDateTime yearBase dateTime b = (Error, b)) \<and>
   (uint yearBase \<le> uint (getYear dateTime) \<and> uint (getYear dateTime) < uint yearBase + 200
      \<longrightarrow> fst (setDateTime yearBase dateTime b) = (if succeeds 0 b then Success else Error) \<and>
          trace (snd (setDateTime yearBase dateTime b)) =
            trace b @ [WriteRegisterData 0x00
                         (DateTimeRegister_bytes (encodeDateTime yearBase dateTime))])"
  by (auto simp add: setDateTime_def Let_def bus_defs split: list.splits)

text \<open>
  The four boundary years of the claim for the year base 2000: 1999 and 2200 are
  rejected, 2000 and 2199 are written.
\<close>

theorem setDateTime_year_check_witness:
  "setDateTime 2000 (date_in_year 1999) idle_bus = (Error, idle_bus) \<and>
   setDateTime 2000 (date_in_year 2200) idle_bus = (Error, idle_bus) \<and>
   fst (setDateTime 2000 (date_in_year 2000) idle_bus) = Success \<and>
   trace (snd (setDateTime 2000 (date_in_year 2000) idle_bus)) =
     [WriteRegisterData 0x00 [0x59, 0x22, 0x07, 0x01, 0x02, 0x11, 0x00]] \<and>
   fst (setDateTime 2000 (date_in_year 2199) idle_bus) = Success \<and>
   trace (snd (setDateTime 2000 (date_in_year 2199) idle_bus)) =
     [WriteRegisterData 0x00 [0x59, 0x22, 0x07, 0x01, 0x02, 0x91, 0x99]]"
  using setDateTime_year_check [of "date_in_year 1999" 2000 idle_bus]
    setDateTime_year_check [of "date_in_year 2200" 2000 idle_bus]
    setDateTime_year_check [of "date_in_year 2000" 2000 idle_bus]
    setDateTime_year_check [of "date_in_year 2199" 2000 idle_bus]
  by (simp add: fixture_defs succeeds_def encodeDateTime_def DateTimeRegister_bytes_def
      convertBinToBcd_def)

subsection \<open>The two reads of \<open>isRunning\<close>\<close>

text \<open>
  Claim C3. When the first read, the test of the OSF bit of the status register, fails,
  \<open>isRunning\<close> returns \<open>Error\<close> at once and stores nothing. When it succeeds and the
  bit is set, \<open>isRunning\<close> stores \<open>false\<close> and returns \<open>Success\<close>, and the test of the
  status register is the only transaction it issued: the control register is not read.
  When the bit is zero, the EOSC bit of the control register is tested next; a failure of
  that read returns \<open>Error\<close>, and otherwise the stored running state is true exactly
  when the EOSC bit is zero.
\<close>

theorem isRunning_short_circuit:
  "(\<not> succeeds 0 b \<longrightarrow>
      fst (isRunning b) = Error \<and> fst (snd (isRunning b)) = None \<and>
      trace (snd (snd (isRunning b))) = trace b @ [TestBits 0x0f 0x80]) \<and>
   (succeeds 0 b \<and> chip b 0x0f AND 0x80 \<noteq> 0 \<longrightarrow>
      fst (isRunning b) = Success \<and> fst (snd (isRunning b)) = Some False \<and>
      trace (snd (snd (isRunning b))) = trace b @ [TestBits 0x0f 0x80]) \<and>
   (succeeds 0 b \<and> chip b 0x0f AND 0x80 = 0 \<and> \<not> succeeds 1 b \<longrightarrow>
      fst (isRunning b) = Error \<and> fst (snd (isRunning b)) = None \<and>
      trace (snd (snd (isRunning b))) = trace b @ [TestBits 0x0f 0x80, TestBits 0x0e 0x80]) \<and>
   (succeeds 0 b \<and> chip b 0x0f AND 0x80 = 0 \<and> succeeds 1 b \<longrightarrow>
      fst (isRunning b) = Success \<and>
      fst (snd (isRunning b)) = Some (chip b 0x0e AND 0x80 = 0) \<and>
      trace (snd (snd (isRunning b))) = trace b @ [TestBits 0x0f 0x80, TestBits 0x0e 0x80])"
  by (auto simp add: isRunning_def Let_def bus_defs split: list.splits)

text \<open>
  One bus for each case: a failing first read, a set OSF bit, a failing second read, and
  a clear and a set EOSC bit behind a clear OSF bit.
\<close>

theorem isRunning_short_circuit_witness:
  "fst (isRunning (bus_with (\<lambda>a. 0) [False])) = Error \<and>
   trace (snd (snd (isRunning (bus_with (\<lambda>a. 0) [False])))) = [TestBits 0x0f 0x80] \<and>
   fst (isRunning (bus_with ((\<lambda>a. 0)(0x0f := 0x80)) [])) = Success \<and>
   fst (snd (isRunning (bus_with ((\<lambda>a. 0)(0x0f := 0x80)) []))) = Some False \<and>
   trace (snd (snd (isRunning (bus_with ((\<lambda>a. 0)(0x0f := 0x80)) [])))) = [TestBits 0x0f 0x80] \<and>
   fst (isRunning (bus_with (\<lambda>a. 0) [True, False])) = Error \<and>
   trace (snd (snd (isRunning (bus_with (\<lambda>a. 0) [True, False])))) =
     [TestBits 0x0f 0x80, TestBits 0x0e 0x80] \<and>
   fst (snd (isRunning idle_bus)) = Some True \<and>
   fst (snd (isRunning (bus_with ((\<lambda>a. 0)(0x0e := 0x80)) []))) = Some False \<and>
   trace (snd (snd (isRunning (bus_with ((\<lambda>a. 0)(0x0e := 0x80)) [])))) =
     [TestBits 0x0f 0x80, TestBits 0x0e 0x80]"
  using isRunning_short_circuit [of "bus_with (\<lambda>a. 0) [False]"]
    isRunning_short_circuit [of "bus_with ((\<lambda>a. 0)(0x0f := 0x80)) []"]
    isRunning_short_circuit [of "bus_with (\<lambda>a. 0) [True, False]"]
    isRunning_short_circuit [of idle_bus]
    isRunning_short_circuit [of "bus_with ((\<lambda>a. 0)(0x0e := 0x80)) []"]
  by (simp add: fixture_defs succeeds_def)

subsection \<open>The two writes of \<open>enableOscillator\<close>\<close>

text \<open>
  Claim C8. \<open>enableOscillator\<close> first issues the clearing of the EOSC bit of the control
  register. When that write fails the call returns \<open>Error\<close> and it is the only
  transaction issued. When it succeeds the clearing of the OSF bit of the status register
  follows, and the call returns the status of this second write.
\<close>

theorem enableOscillator_sequence:
  "(\<not> succeeds 0 b \<longrightarrow>
      fst (enableOscillator b) = Error \<and>
      trace (snd (enableOscillator b)) = trace b @ [ChangeBits 0x0e 0x80 BitOperation_Clear]) \<and>
   (succeeds 0 b \<longrightarrow>
      fst (enableOscillator b) = (if succeeds 1 b then Success else Error) \<and>
      trace (snd (enableOscillator b)) =
        trace b @ [ChangeBits 0x0e 0x80 BitOperation_Clear,
                   ChangeBits 0x0f 0x80 BitOperation_Clear])"
  by (auto simp add: enableOscillator_def Let_def bus_defs split: list.splits)

text \<open>A failing first write, a failing second write, and two successful writes.\<close>

theorem enableOscillator_sequence_witness:
  "fst (enableOscillator (bus_with (\<lambda>a. 0xff) [False])) = Error \<and>
   trace (snd (enableOscillator (bus_with (\<lambda>a. 0xff) [False]))) =
     [ChangeBits 0x0e 0x80 BitOperation_Clear] \<and>
   fst (enableOscillator (bus_with (\<lambda>a. 0xff) [True, False])) = Error \<and>
   fst (enableOscillator (bus_with (\<lambda>a. 0xff) [])) = Success \<and>
   trace (snd (enableOscillator (bus_with (\<lambda>a. 0xff) []))) =
     [ChangeBits 0x0e 0x80 BitOperation_Clear, ChangeBits 0x0f 0x80 BitOperation_Clear]"
  using enableOscillator_sequence [of "bus_with (\<lambda>a. 0xff) [False]"]
    enableOscillator_sequence [of "bus_with (\<lambda>a. 0xff) [True, False]"]
    enableOscillator_sequence [of "bus_with (\<lambda>a. 0xff) []"]
  by (simp add: fixture_defs succeeds_def)

subsection \<open>Reading and consuming the alarm flags\<close>

text \<open>
  Claim C5. \<open>isAlarm1Set\<close> and \<open>isAlarm2Set\<close> return the status of the test of their
  alarm flag (bit 0 and bit 1 of the status register). When the test fails they return
  \<open>Error\<close> and store nothing. When it succeeds and the flag is set, they store \<open>true\<close>
  and issue the write that clears the flag; the call returns \<open>Success\<close> whether that
  write succeeds (the flag is then cleared on the chip) or fails (the register is then
  unchanged). When the flag is zero they store \<open>false\<close> and the test is the only
  transaction issued.
\<close>

theorem isAlarmSet_clears_silently:
  "(\<not> succeeds 0 b \<longrightarrow>
      fst (isAlarm1Set b) = Error \<and> fst (snd (isAlarm1Set b)) = None \<and>
      trace (snd (snd (isAlarm1Set b))) = trace b @ [TestBits 0x0f 0x01] \<and>
      fst (isAlarm2Set b) = Error \<and> fst (snd (isAlarm2Set b)) = None \<and>
      trace (snd (snd (isAlarm2Set b))) = trace b @ [TestBits 0x0f 0x02]) \<and>
   (succeeds 0 b \<and> chip b 0x0f AND 0x01 \<noteq> 0 \<longrightarrow>
      fst (isAlarm1Set b) = Success \<and> fst (snd (isAlarm1Set b)) = Some True \<and>
      trace (snd (snd (isAlarm1Set b))) =
        trace b @ [TestBits 0x0f 0x01, ChangeBits 0x0f 0x01 BitOperation_Clear] \<and>
      chip (snd (snd (isAlarm1Set b))) 0x0f =
        (if succeeds 1 b then chip b 0x0f AND NOT 0x01 else chip b 0x0f)) \<and>
   (succeeds 0 b \<and> chip b 0x0f AND 0x01 = 0 \<longrightarrow>
      fst (isAlarm1Set b) = Success \<and> fst (snd (isAlarm1Set b)) = Some False \<and>
      trace (snd (snd (isAlarm1Set b))) = trace b @ [TestBits 0x0f 0x01]) \<and>
   (succeeds 0 b \<and> chip b 0x0f AND 0x02 \<noteq> 0 \<longrightarrow>
      fst (isAlarm2Set b) = Success \<and> fst (snd (isAlarm2Set b)) = Some True \<and>
      trace (snd (snd (isAlarm2Set b))) =
        trace b @ [TestBits 0x0f 0x02, ChangeBits 0x0f 0x02 BitOperation_Clear] \<and>
      chip (snd (snd (isAlarm2Set b))) 0x0f =
        (if succeeds 1 b then chip b 0x0f AND NOT 0x02 else chip b 0x0f)) \<and>
   (succeeds 0 b \<and> chip b 0x0f AND 0x02 = 0 \<longrightarrow>
      fst (isAlarm2Set b) = Success \<and> fst (snd (isAlarm2Set b)) = Some False \<and>
      trace (snd (snd (isAlarm2Set b))) = trace b @ [TestBits 0x0f 0x02])"
  by (auto simp add: isAlarm1Set_def isAlarm2Set_def Let_def bus_defs split: list.splits)

text \<open>
  A status register with both flags set behind a failing test, behind a failing clearing
  write and behind a successful one, and a status register with both flags clear.
\<close>

theorem isAlarmSet_clears_silently_witness:
  "fst (isAlarm1Set (bus_with (\<lambda>a. 0x03) [False])) = Error \<and>
   fst (isAlarm2Set (bus_with (\<lambda>a. 0x03) [False])) = Error \<and>
   fst (isAlarm1Set (bus_with (\<lambda>a. 0x03) [True, False])) = Success \<and>
   fst (snd (isAlarm1Set (bus_with (\<lambda>a. 0x03) [True, False]))) = Some True \<and>
   trace (snd (snd (isAlarm1Set (bus_with (\<lambda>a. 0x03) [True, False])))) =
     [TestBits 0x0f 0x01, ChangeBits 0x0f 0x01 BitOperation_Clear] \<and>
   chip (snd (snd (isAlarm1Set (bus_with (\<lambda>a. 0x03) [True, False])))) 0x0f = 0x03 \<and>
   chip (snd (snd (isAlarm1Set (bus_with (\<lambda>a. 0x03) [])))) 0x0f = 0x02 \<and>
   fst (isAlarm2Set (bus_with (\<lambda>a. 0x03) [True, False])) = Success \<and>
   fst (snd (isAlarm2Set (bus_with (\<lambda>a. 0x03) [True, False]))) = Some True \<and>
   chip (snd (snd (isAlarm2Set (bus_with (\<lambda>a. 0x03) [])))) 0x0f = 0x01 \<and>
   fst (snd (isAlarm1Set idle_bus)) = Some False \<and>
   trace (snd (snd (isAlarm1Set idle_bus))) = [TestBits 0x0f 0x01] \<and>
   fst (snd (isAlarm2Set idle_bus)) = Some False \<and>
   trace (snd (snd (isAlarm2Set idle_bus))) = [TestBits 0x0f 0x02]"
  using isAlarmSet_clears_silently [of "bus_with (\<lambda>a. 0x03) [False]"]
    isAlarmSet_clears_silently [of "bus_with (\<lambda>a. 0x03) [True, False]"]
    isAlarmSet_clears_silently [of "bus_with (\<lambda>a. 0x03) []"]
    isAlarmSet_clears_silently [of idle_bus]
  by (simp add: fixture_defs succeeds_def)

subsection \<open>Interrupt pin modes that share a value\<close>

text \<open>
  Claim C10. \<open>setIntPinMode\<close> does the same for \<open>Alarm1\<close>, \<open>Alarm2\<close> and \<open>Alarm12\<close>:
  one masked write of the value \<open>0b00101\<close> under the mask \<open>0b00011111\<close> to the control
  register, with the same status and the same bus afterwards. It also does the same for
  \<open>Disabled\<close> and \<open>SquareWave1Hz\<close>, with the value \<open>0b00000\<close>. Within each group the
  modes cannot be told apart by their effect.
\<close>

theorem setIntPinMode_shared_values:
  "setIntPinMode Alarm1 b = setIntPinMode Alarm2 b \<and>
   setIntPinMode Alarm2 b = setIntPinMode Alarm12 b \<and>
   trace (snd (setIntPinMode Alarm1 b)) = trace b @ [WriteBits 0x0e 0x1f 0x05] \<and>
   setIntPinMode Disabled b = setIntPinMode SquareWave1Hz b \<and>
   trace (snd (setIntPinMode Disabled b)) = trace b @ [WriteBits 0x0e 0x1f 0x00]"
  by (auto simp add: setIntPinMode_def bus_defs split: list.splits)

subsection \<open>The registers written by \<open>setAlarm1\<close> and \<open>setAlarm2\<close>\<close>

text \<open>A batched write leaves every register outside its range as it was.\<close>

lemma store_bytes_outside:
  "a < lo \<or> lo + length xs \<le> a \<Longrightarrow> store_bytes lo xs m a = m a"
  by (induction lo xs m rule: store_bytes.induct) auto

text \<open>
  Claim C9. \<open>setAlarm1\<close> issues exactly one transaction, the batched write of the four
  bytes of the alarm block (seconds, minutes, hours, day) from register \<open>0x07\<close> on.
  \<open>setAlarm2\<close> issues exactly one transaction, the batched write of three bytes
  (minutes, hours, day: the block without its seconds byte) from register \<open>0x0B\<close> on.
  No register outside \<open>0x07\<close> to \<open>0x0A\<close>, respectively \<open>0x0B\<close> to \<open>0x0D\<close>, is changed
  by the call, and when the write succeeds the registers of the range hold the bytes
  written.
\<close>

theorem setAlarm_written_range:
  "trace (snd (setAlarm1 alarmMode dateTime b)) =
     trace b @ [WriteRegisterData 0x07
       [a_seconds (fillAlarmRegister alarmMode dateTime),
        a_minutes (fillAlarmRegister alarmMode dateTime),
        a_hours (fillAlarmRegister alarmMode dateTime),
        a_day (fillAlarmRegister alarmMode dateTime)]] \<and>
   trace (snd (setAlarm2 alarmMode dateTime b)) =
     trace b @ [WriteRegisterData 0x0b
       [a_minutes (fillAlarmRegister alarmMode dateTime),
        a_hours (fillAlarmRegister alarmMode dateTime),
        a_day (fillAlarmRegister alarmMode dateTime)]] \<and>
   (a < 0x07 \<or> 0x0a < a \<longrightarrow> chip (snd (setAlarm1 alarmMode dateTime b)) a = chip b a) \<and>
   (a < 0x0b \<or> 0x0d < a \<longrightarrow> chip (snd (setAlarm2 alarmMode dateTime b)) a = chip b a) \<and>
   (succeeds 0 b \<longrightarrow>
      map (chip (snd (setAlarm1 alarmMode dateTime b))) [0x07, 0x08, 0x09, 0x0a] =
        AlarmRegister_bytes (fillAlarmRegister alarmMode dateTime) \<and>
      map (chip (snd (setAlarm2 alarmMode dateTime b))) [0x0b, 0x0c, 0x0d] =
        tl (AlarmRegister_bytes (fillAlarmRegister alarmMode dateTime)))"
  by (auto simp add: setAlarm1_def setAlarm2_def AlarmRegister_bytes_def bus_defs store_bytes_outside
      split: list.splits)

text \<open>
  Both alarms set on an idle bus: the register after the range of alarm 1 and the
  register before the range of alarm 2 keep their content.
\<close>

theorem setAlarm_written_range_witness:
  "trace (snd (setAlarm1 OncePerSecond (date_in_year 2026) idle_bus)) =
     [WriteRegisterData 0x07 [0xd9, 0xa2, 0x87, 0x82]] \<and>
   trace (snd (setAlarm2 OncePerMinute (date_in_year 2026) idle_bus)) =
     [WriteRegisterData 0x0b [0xa2, 0x87, 0x82]] \<and>
   chip (snd (setAlarm1 OncePerSecond (date_in_year 2026) idle_bus)) 0x0b = 0 \<and>
   chip (snd (setAlarm2 OncePerMinute (date_in_year 2026) idle_bus)) 0x0a = 0 \<and>
   map (chip (snd (setAlarm1 OncePerSecond (date_in_year 2026) idle_bus))) [0x07, 0x08, 0x09, 0x0a] =
     [0xd9, 0xa2, 0x87, 0x82] \<and>
   map (chip (snd (setAlarm2 OncePerMinute (date_in_year 2026) idle_bus))) [0x0b, 0x0c, 0x0d] =
     [0xa2, 0x87, 0x82]"
  using setAlarm_written_range [of OncePerSecond "date_in_year 2026" idle_bus "0x0b"]
    setAlarm_written_range [of OncePerMinute "date_in_year 2026" idle_bus "0x0a"]
  by (simp add: fixture_defs succeeds_def fillAlarmRegister_def AlarmRegister_bytes_def
      convertBinToBcd_def)

subsection \<open>The temperature\<close>

lemma decodeTemperature_sign:
  "decodeTemperature \<lparr>t_high = h, t_low = l\<rparr> =
     (if 0 \<le> sint h
      then real_of_int (sint h) + real (unat (drop_bit 6 l)) * 0.25
      else real_of_int (sint h) - real (unat (drop_bit 6 l)) * 0.25)"
  by (simp add: decodeTemperature_def Let_def not_le del: of_int_sint)

lemma getTemperature_read:
  "succeeds 0 b \<Longrightarrow>
     fst (getTemperature b) = Success \<and>
     fst (snd (getTemperature b)) =
       Some (decodeTemperature \<lparr>t_high = chip b 0x11, t_low = chip b 0x12\<rparr>)"
  by (auto simp add: getTemperature_def TemperatureRegister_of_bytes_def bus_defs
      split: list.splits)

text \<open>
  Claim C7. On a successful read of the two temperature registers, \<open>getTemperature\<close>
  returns \<open>Success\<close> and stores the signed high byte plus a quarter of the top two bits
  of the low byte when the high byte is not negative, and the signed high byte minus that
  fraction when it is negative. The pair \<open>(25, 0b01000000)\<close> gives \<open>25.25\<close> and the pair
  \<open>(-3, 0b01000000)\<close> gives \<open>-3.25\<close>.
\<close>

theorem getTemperature_decoding:
  "(succeeds 0 b \<longrightarrow>
      fst (getTemperature b) = Success \<and>
      fst (snd (getTemperature b)) =
        Some (if 0 \<le> sint (chip b 0x11)
              then real_of_int (sint (chip b 0x11)) + real (unat (drop_bit 6 (chip b 0x12))) * 0.25
              else real_of_int (sint (chip b 0x11)) - real (unat (drop_bit 6 (chip b 0x12))) * 0.25)) \<and>
   (succeeds 0 b \<and> chip b 0x11 = 25 \<and> chip b 0x12 = 0x40 \<longrightarrow>
      fst (snd (getTemperature b)) = Some 25.25) \<and>
   (succeeds 0 b \<and> chip b 0x11 = - 3 \<and> chip b 0x12 = 0x40 \<longrightarrow>
      fst (snd (getTemperature b)) = Some (- 3.25))"
proof (intro conjI impI)
  assume ok: "succeeds 0 b"
  then show "fst (getTemperature b) = Success"
    by (simp add: getTemperature_read)
  from ok show "fst (snd (getTemperature b)) =
        Some (if 0 \<le> sint (chip b 0x11)
              then real_of_int (sint (chip b 0x11)) + real (unat (drop_bit 6 (chip b 0x12))) * 0.25
              else real_of_int (sint (chip b 0x11)) - real (unat (drop_bit 6 (chip b 0x12))) * 0.25)"
    by (simp only: getTemperature_read decodeTemperature_sign)
next
  assume "succeeds 0 b \<and> chip b 0x11 = 25 \<and> chip b 0x12 = 0x40"
  then show "fst (snd (getTemperature b)) = Some 25.25"
    by (simp add: getTemperature_read decodeTemperature_def Let_def drop_bit_eq_div)
next
  assume "succeeds 0 b \<and> chip b 0x11 = - 3 \<and> chip b 0x12 = 0x40"
  then show "fst (snd (getTemperature b)) = Some (- 3.25)"
    by (simp add: getTemperature_read decodeTemperature_def Let_def drop_bit_eq_div)
qed

text \<open>The two pairs of the claim, and the lowest temperature the registers can hold.\<close>

theorem getTemperature_decoding_witness:
  "fst (getTemperature (bus_with ((\<lambda>a. 0)(0x11 := 25, 0x12 := 0x40)) [])) = Success \<and>
   fst (snd (getTemperature (bus_with ((\<lambda>a. 0)(0x11 := 25, 0x12 := 0x40)) []))) = Some 25.25 \<and>
   fst (snd (getTemperature (bus_with ((\<lambda>a. 0)(0x11 := 0xfd, 0x12 := 0x40)) []))) = Some (- 3.25) \<and>
   fst (snd (getTemperature (bus_with ((\<lambda>a. 0)(0x11 := 0x80, 0x12 := 0xff)) []))) = Some (- 128.75)"
  using getTemperature_decoding [of "bus_with ((\<lambda>a. 0)(0x11 := 25, 0x12 := 0x40)) []"]
    getTemperature_decoding [of "bus_with ((\<lambda>a. 0)(0x11 := 0xfd, 0x12 := 0x40)) []"]
    getTemperature_decoding [of "bus_with ((\<lambda>a. 0)(0x11 := 0x80, 0x12 := 0xff)) []"]
  by (simp add: fixture_defs succeeds_def drop_bit_eq_div)

subsection \<open>BCD bytes\<close>

text \<open>
  The facts about the BCD helpers are finite: each is checked on every byte below a
  bound, and carried over to an arbitrary byte below that bound.
\<close>

lemma u8_cases:
  fixes x :: u8
  assumes "unat x < k" and "list_all (\<lambda>n. P (word_of_nat n)) [0..<k]"
  shows "P x"
proof -
  have "\<forall>n\<in>set [0..<k]. P (word_of_nat n)"
    using assms(2) by (simp only: list_all_iff)
  moreover have "unat x \<in> set [0..<k]"
    using assms(1) by simp
  ultimately have "P (word_of_nat (unat x))"
    by (rule bspec)
  then show ?thesis by simp
qed

lemma bcd_bit7_table:
  "list_all (\<lambda>n. \<not> bit (convertBinToBcd (word_of_nat n)) 7) [0..<80]"
  by code_simp

lemma bcd_bit7: "unat x < 80 \<Longrightarrow> \<not> bit (convertBinToBcd x) 7"
  by (rule u8_cases [where k = 80]) (simp_all add: bcd_bit7_table)

lemma bcd_roundtrip_table:
  "list_all (\<lambda>n. convertBcdToBin (convertBinToBcd (word_of_nat n)) = word_of_nat n) [0..<100]"
  by code_simp

lemma bcd_roundtrip: "unat x < 100 \<Longrightarrow> convertBcdToBin (convertBinToBcd x) = x"
  by (rule u8_cases [where k = 100]) (simp_all add: bcd_roundtrip_table)

lemma bcd_mask7_table:
  "list_all (\<lambda>n. convertBcdToBin (convertBinToBcd (word_of_nat n) AND 0x7f) = word_of_nat n) [0..<80]"
  by code_simp

lemma bcd_mask7: "unat x < 80 \<Longrightarrow> convertBcdToBin (convertBinToBcd x AND 0x7f) = x"
  by (rule u8_cases [where k = 80]) (simp_all add: bcd_mask7_table)

lemma bcd_mask6_table:
  "list_all (\<lambda>n. convertBcdToBin (convertBinToBcd (word_of_nat n) AND 0x3f) = word_of_nat n) [0..<40]"
  by code_simp

lemma bcd_mask6: "unat x < 40 \<Longrightarrow> convertBcdToBin (convertBinToBcd x AND 0x3f) = x"
  by (rule u8_cases [where k = 40]) (simp_all add: bcd_mask6_table)

lemma bcd_mask5_table:
  "list_all (\<lambda>n. convertBcdToBin ((convertBinToBcd (word_of_nat n) OR 0x80) AND 0x1f) = word_of_nat n
     \<and> convertBcdToBin (convertBinToBcd (word_of_nat n) AND 0x1f) = word_of_nat n) [0..<20]"
  by code_simp

lemma bcd_mask5:
  "unat x < 20 \<Longrightarrow> convertBcdToBin ((convertBinToBcd x OR (if c then push_bit 7 1 else 0)) AND 0x1f) = x"
  using u8_cases [where k = 20 and x = x, OF _ bcd_mask5_table] by simp

lemma bit7_test: "(v AND 0x80 \<noteq> 0) = bit (v :: u8) 7"
  using bit_iff_and_push_bit_not_eq_0 [of v 7] by simp

lemma dow_mask: "unat (x :: u8) < 8 \<Longrightarrow> x AND 0x7 = x"
  using less_mask_eq [of x 3] by (simp add: word_less_nat_alt mask_eq_exp_minus_1)

subsection \<open>The alarm block\<close>

lemma AlarmMode_value_Day:
  "(AlarmMode_value alarmMode = 0b10000) = (alarmMode = DayHoursMinutesSeconds)"
  by (cases alarmMode) simp_all

lemma dont_care_bit:
  fixes v :: u8
  shows "bit (v OR (if c then 0x80 else 0x00)) 7 = (bit v 7 \<or> c)"
  by (simp add: bit_or_iff)

lemma mode_bits:
  "(AlarmMode_value alarmMode AND 0b00001 \<noteq> 0) = bit (AlarmMode_value alarmMode) 0"
  "(AlarmMode_value alarmMode AND 0b00010 \<noteq> 0) = bit (AlarmMode_value alarmMode) 1"
  "(AlarmMode_value alarmMode AND 0b00100 \<noteq> 0) = bit (AlarmMode_value alarmMode) 2"
  "(AlarmMode_value alarmMode AND 0b01000 \<noteq> 0) = bit (AlarmMode_value alarmMode) 3"
  by (cases alarmMode; simp)+

lemma fillAlarmRegister_fields:
  "a_seconds (fillAlarmRegister alarmMode dateTime) =
     convertBinToBcd (getSecond dateTime) OR (if bit (AlarmMode_value alarmMode) 0 then 0x80 else 0x00)"
  "a_minutes (fillAlarmRegister alarmMode dateTime) =
     convertBinToBcd (getMinute dateTime) OR (if bit (AlarmMode_value alarmMode) 1 then 0x80 else 0x00)"
  "a_hours (fillAlarmRegister alarmMode dateTime) =
     convertBinToBcd (getHour dateTime) OR (if bit (AlarmMode_value alarmMode) 2 then 0x80 else 0x00)"
  "a_day (fillAlarmRegister alarmMode dateTime) =
     (if alarmMode = DayHoursMinutesSeconds
      then convertBinToBcd (getDayOfWeek dateTime + 1) OR 0x40
      else convertBinToBcd (getDay dateTime)) OR
     (if bit (AlarmMode_value alarmMode) 3 then 0x80 else 0x00)"
  by (simp_all add: fillAlarmRegister_def mode_bits AlarmMode_value_Day)

text \<open>
  Claim C4, amended. For every date/time whose second, minute, hour and day are below 80
  and whose day of week is below 79 (every in-range date/time is one), bit 7 of the
  seconds, minutes, hours and day bytes of the alarm block is set exactly when bit 0, 1,
  2 and 3 of the alarm mode is set. The day byte is \<open>BCD(dayOfWeek + 1) | 0x40\<close> for the
  mode \<open>DayHoursMinutesSeconds\<close> and \<open>BCD(day)\<close> for every other mode, in both cases
  with bit 7 added when bit 3 of the mode is set. \<open>OncePerSecond\<close> sets bit 7 of the
  seconds, minutes and hours bytes.
\<close>

theorem fillAlarmRegister_dont_care_bits:
  assumes "unat (getSecond dateTime) < 80" and "unat (getMinute dateTime) < 80"
    and "unat (getHour dateTime) < 80" and "unat (getDay dateTime) < 80"
    and "unat (getDayOfWeek dateTime) < 79"
  shows "bit (a_seconds (fillAlarmRegister alarmMode dateTime)) 7 = bit (AlarmMode_value alarmMode) 0 \<and>
    bit (a_minutes (fillAlarmRegister alarmMode dateTime)) 7 = bit (AlarmMode_value alarmMode) 1 \<and>
    bit (a_hours (fillAlarmRegister alarmMode dateTime)) 7 = bit (AlarmMode_value alarmMode) 2 \<and>
    bit (a_day (fillAlarmRegister alarmMode dateTime)) 7 = bit (AlarmMode_value alarmMode) 3 \<and>
    a_day (fillAlarmRegister alarmMode dateTime) =
      (if alarmMode = DayHoursMinutesSeconds
       then convertBinToBcd (getDayOfWeek dateTime + 1) OR 0x40
       else convertBinToBcd (getDay dateTime)) OR
      (if bit (AlarmMode_value alarmMode) 3 then 0x80 else 0x00) \<and>
    bit (a_seconds (fillAlarmRegister OncePerSecond dateTime)) 7 \<and>
    bit (a_minutes (fillAlarmRegister OncePerSecond dateTime)) 7 \<and>
    bit (a_hours (fillAlarmRegister OncePerSecond dateTime)) 7"
proof -
  have dow: "unat (getDayOfWeek dateTime + 1) < 80"
    using assms(5) by (simp add: unat_word_ariths)
  have day: "\<not> bit (convertBinToBcd (getDayOfWeek dateTime + 1) OR 0x40) 7"
    using bcd_bit7 [OF dow] by (simp add: bit_or_iff)
  have "bit (a_seconds (fillAlarmRegister alarmMode dateTime)) 7 = bit (AlarmMode_value alarmMode) 0"
    using assms(1) by (simp only: fillAlarmRegister_fields dont_care_bit bcd_bit7 simp_thms)
  moreover
  have "bit (a_minutes (fillAlarmRegister alarmMode dateTime)) 7 = bit (AlarmMode_value alarmMode) 1"
    using assms(2) by (simp only: fillAlarmRegister_fields dont_care_bit bcd_bit7 simp_thms)
  moreover
  have "bit (a_hours (fillAlarmRegister alarmMode dateTime)) 7 = bit (AlarmMode_value alarmMode) 2"
    using assms(3) by (simp only: fillAlarmRegister_fields dont_care_bit bcd_bit7 simp_thms)
  moreover
  have "bit (a_day (fillAlarmRegister alarmMode dateTime)) 7 = bit (AlarmMode_value alarmMode) 3"
    using assms(4) day
    by (simp only: fillAlarmRegister_fields dont_care_bit bcd_bit7 simp_thms split: if_split)
  moreover
  have "bit (a_seconds (fillAlarmRegister OncePerSecond dateTime)) 7 \<and>
    bit (a_minutes (fillAlarmRegister OncePerSecond dateTime)) 7 \<and>
    bit (a_hours (fillAlarmRegister OncePerSecond dateTime)) 7"
    by (simp add: fillAlarmRegister_fields bit_or_iff)
  ultimately show ?thesis
    by (simp only: fillAlarmRegister_fields(4) simp_thms)
qed

text \<open>
  A day of week of 3 under \<open>DayHoursMinutesSeconds\<close> gives the day byte
  \<open>BCD(4) | 0x40\<close>; \<open>OncePerSecond\<close> sets all four bits.
\<close>

theorem fillAlarmRegister_dont_care_bits_witness:
  "a_day (fillAlarmRegister DayHoursMinutesSeconds ((date_in_year 2026)\<lparr>getDayOfWeek := 3\<rparr>)) = 0x44 \<and>
   bit (a_seconds (fillAlarmRegister OncePerSecond (date_in_year 2026))) 7 \<and>
   bit (a_minutes (fillAlarmRegister OncePerSecond (date_in_year 2026))) 7 \<and>
   bit (a_hours (fillAlarmRegister OncePerSecond (date_in_year 2026))) 7 \<and>
   bit (a_day (fillAlarmRegister OncePerSecond (date_in_year 2026))) 7 \<and>
   \<not> bit (a_seconds (fillAlarmRegister OncePerMinute (date_in_year 2026))) 7 \<and>
   a_day (fillAlarmRegister HoursMinutesSeconds (date_in_year 2026)) = 0x82 \<and>
   a_day (fillAlarmRegister DateHoursMinutesSeconds (date_in_year 2026)) = 0x02"
  using fillAlarmRegister_dont_care_bits
      [of "(date_in_year 2026)\<lparr>getDayOfWeek := 3\<rparr>" DayHoursMinutesSeconds]
    fillAlarmRegister_dont_care_bits [of "date_in_year 2026" OncePerSecond]
    fillAlarmRegister_dont_care_bits [of "date_in_year 2026" OncePerMinute]
    fillAlarmRegister_dont_care_bits [of "date_in_year 2026" HoursMinutesSeconds]
    fillAlarmRegister_dont_care_bits [of "date_in_year 2026" DateHoursMinutesSeconds]
  by (simp add: fixture_defs convertBinToBcd_def)

text \<open>
  Without the bound on the fields the claim fails: the BCD byte of a second of 80 has
  bit 7 set itself, so the seconds byte carries the bit under \<open>DateHoursMinutesSeconds\<close>,
  whose bit 0 is clear. The driver does not check the fields of the date/time it is
  given.
\<close>

theorem fillAlarmRegister_dont_care_counterexample:
  "bit (a_seconds (fillAlarmRegister DateHoursMinutesSeconds
         ((date_in_year 2026)\<lparr>getSecond := 80\<rparr>))) 7 \<and>
   \<not> bit (AlarmMode_value DateHoursMinutesSeconds) 0"
  by (simp add: fillAlarmRegister_def fixture_defs convertBinToBcd_def)

subsection \<open>Writing and reading back the date and time\<close>

lemma year_digits:
  fixes yb y :: int
  assumes "yb mod 100 = 0" and "yb \<le> y" and "y < yb + 200"
  shows "y mod 100 + (if yb + 100 \<le> y then yb + 100 else yb) = y"
proof -
  have "(y - yb) mod 100 = (y mod 100 - yb mod 100) mod 100"
    by (simp add: mod_diff_eq)
  with assms(1) have digits: "y mod 100 = (y - yb) mod 100"
    by simp
  show ?thesis
  proof (cases "yb + 100 \<le> y")
    case True
    then have "(y - yb - 100) mod 100 = y - yb - 100"
      using assms(3) by (intro mod_pos_pos_trivial) simp_all
    then have "(y - yb) mod 100 = y - yb - 100"
      by simp
    with digits True show ?thesis by simp
  next
    case False
    then have "(y - yb) mod 100 = y - yb"
      using assms(2) by (intro mod_pos_pos_trivial) simp_all
    with digits False show ?thesis by simp
  qed
qed

lemma two_digits_byte:
  fixes y :: u16
  shows "unat (word_of_int (uint y mod 100) :: u8) < 100"
    and "uint (ucast (word_of_int (uint y mod 100) :: u8) :: u16) = uint y mod 100"
proof -
  have "0 \<le> uint y mod 100" "uint y mod 100 < 100"
    by simp_all
  then have *: "uint (word_of_int (uint y mod 100) :: u8) = uint y mod 100"
    by (simp add: uint_word_of_int take_bit_eq_mod)
  then show "unat (word_of_int (uint y mod 100) :: u8) < 100"
    by (simp add: unat_eq_nat_uint)
  from * show "uint (ucast (word_of_int (uint y mod 100) :: u8) :: u16) = uint y mod 100"
    by (simp add: uint_up_ucast is_up)
qed

lemma decode_encode_year:
  assumes "uint yearBase mod 100 = 0" and "uint yearBase \<le> uint (getYear dateTime)"
    and "uint (getYear dateTime) < uint yearBase + 200" and "unat (getMonth dateTime) < 80"
  shows "getYear (decodeDateTime yearBase (encodeDateTime yearBase dateTime)) = getYear dateTime"
proof -
  have "getYear (decodeDateTime yearBase (encodeDateTime yearBase dateTime)) =
      word_of_int (uint (getYear dateTime) mod 100 +
        (if uint yearBase + 100 \<le> uint (getYear dateTime) then uint yearBase + 100 else uint yearBase))"
    using assms(4)
    by (simp add: decodeDateTime_def encodeDateTime_def fromUncheckedValues_def
        bit7_test bit_or_iff bcd_bit7 bcd_roundtrip two_digits_byte)
  also have "\<dots> = word_of_int (uint (getYear dateTime))"
    using year_digits [OF assms(1-3)] by simp
  finally show ?thesis by simp
qed

text \<open>
  For a year base that is a multiple of 100, decoding the encoded block gives the
  date/time back, on the whole range the year check admits.
\<close>

lemma decode_encode_century_base:
  assumes "uint yearBase mod 100 = 0" and "uint yearBase \<le> uint (getYear dateTime)"
    and "uint (getYear dateTime) < uint yearBase + 200"
    and "unat (getMonth dateTime) < 20" and "unat (getDay dateTime) < 40"
    and "unat (getHour dateTime) < 40" and "unat (getMinute dateTime) < 80"
    and "unat (getSecond dateTime) < 80" and "unat (getDayOfWeek dateTime) < 8"
  shows "decodeDateTime yearBase (encodeDateTime yearBase dateTime) = dateTime"
proof -
  have "getYear (decodeDateTime yearBase (encodeDateTime yearBase dateTime)) = getYear dateTime"
    using assms(1-4) by (simp add: decode_encode_year)
  moreover have "getMonth (decodeDateTime yearBase (encodeDateTime yearBase dateTime)) = getMonth dateTime"
    using assms(4) by (simp add: decodeDateTime_def encodeDateTime_def fromUncheckedValues_def bcd_mask5)
  moreover have "getDay (decodeDateTime yearBase (encodeDateTime yearBase dateTime)) = getDay dateTime"
    using assms(5) by (simp add: decodeDateTime_def encodeDateTime_def fromUncheckedValues_def bcd_mask6)
  moreover have "getHour (decodeDateTime yearBase (encodeDateTime yearBase dateTime)) = getHour dateTime"
    using assms(6) by (simp add: decodeDateTime_def encodeDateTime_def fromUncheckedValues_def bcd_mask6)
  moreover have "getMinute (decodeDateTime yearBase (encodeDateTime yearBase dateTime)) = getMinute dateTime"
    using assms(7) by (simp add: decodeDateTime_def encodeDateTime_def fromUncheckedValues_def bcd_mask7)
  moreover have "getSecond (decodeDateTime yearBase (encodeDateTime yearBase dateTime)) = getSecond dateTime"
    using assms(8) by (simp add: decodeDateTime_def encodeDateTime_def fromUncheckedValues_def bcd_mask7)
  moreover have "getDayOfWeek (decodeDateTime yearBase (encodeDateTime yearBase dateTime)) = getDayOfWeek dateTime"
    using assms(9) by (simp add: decodeDateTime_def encodeDateTime_def fromUncheckedValues_def dow_mask)
  ultimately show ?thesis
    by (simp add: DateTime.equality)
qed

lemma DateTimeRegister_fields:
  "\<lparr>r_seconds = r_seconds d, r_minutes = r_minutes d, r_hours = r_hours d,
    r_dayOfWeek = r_dayOfWeek d, r_day = r_day d, r_month = r_month d, r_year = r_year d\<rparr> = d"
  by (cases d) simp

text \<open>
  What \<open>getDateTime\<close> reads after a successful \<open>setDateTime\<close> is the decoding of the
  block \<open>setDateTime\<close> encoded.
\<close>

lemma setDateTime_getDateTime:
  assumes "uint yearBase \<le> uint (getYear dateTime)"
    and "uint (getYear dateTime) < uint yearBase + 200"
    and "succeeds 0 b" and "succeeds 1 b"
  shows "fst (setDateTime yearBase dateTime b) = Success \<and>
    fst (getDateTime yearBase (snd (setDateTime yearBase dateTime b))) = Success \<and>
    fst (snd (getDateTime yearBase (snd (setDateTime yearBase dateTime b)))) =
      Some (decodeDateTime yearBase (encodeDateTime yearBase dateTime))"
  using assms
  by (auto simp add: setDateTime_def getDateTime_def bus_defs DateTimeRegister_bytes_def
      DateTimeRegister_of_bytes_def DateTimeRegister_fields split: list.splits)

lemma setDateTime_getDateTime_century_base:
  assumes "uint yearBase mod 100 = 0" and "uint yearBase \<le> uint (getYear dateTime)"
    and "uint (getYear dateTime) < uint yearBase + 200"
    and "unat (getMonth dateTime) < 20" and "unat (getDay dateTime) < 40"
    and "unat (getHour dateTime) < 40" and "unat (getMinute dateTime) < 80"
    and "unat (getSecond dateTime) < 80" and "unat (getDayOfWeek dateTime) < 8"
    and "succeeds 0 b" and "succeeds 1 b"
  shows "fst (snd (getDateTime yearBase (snd (setDateTime yearBase dateTime b)))) = Some dateTime"
  using setDateTime_getDateTime [OF assms(2,3,10,11)] decode_encode_century_base [OF assms(1-9)]
  by simp

text \<open>
  With the year base 2000, a date in 2150 is read back as it was written, century bit
  included.
\<close>

lemma setDateTime_getDateTime_year_base_2000:
  "trace (snd (setDateTime 2000 (date_in_year 2150) idle_bus)) =
     [WriteRegisterData 0x00 [0x59, 0x22, 0x07, 0x01, 0x02, 0x91, 0x50]] \<and>
   fst (snd (getDateTime 2000 (snd (setDateTime 2000 (date_in_year 2150) idle_bus)))) =
     Some (date_in_year 2150)"
  using setDateTime_getDateTime_century_base [of 2000 "date_in_year 2150" idle_bus]
  by (simp add: fixture_defs succeeds_def setDateTime_def bus_defs DateTimeRegister_bytes_def
      encodeDateTime_def convertBinToBcd_def)

text \<open>
  Claim C1. Writing a date/time with \<open>setDateTime\<close> and reading it back with
  \<open>getDateTime\<close> should give the same year, month, day, hour, minute, second and day of
  week, for every year from the year base up to the year base plus 199. The driver does
  so when the year base is a multiple of 100, as shown above. For any other year base it
  does not: \<open>setDateTime\<close> stores the last two digits of the year itself, while the year
  check, the century bit and \<open>getDateTime\<close> all count from the year base. With the year
  base 1970, a date in 1980 passes the check, is written with the year byte \<open>0x80\<close> and
  no century bit, and is read back as the same date in 2050.
\<close>

theorem roundtrip_year_base_1970:
  "fst (setDateTime 1970 (date_in_year 1980) idle_bus) = Success \<and>
   trace (snd (setDateTime 1970 (date_in_year 1980) idle_bus)) =
     [WriteRegisterData 0x00 [0x59, 0x22, 0x07, 0x01, 0x02, 0x11, 0x80]] \<and>
   fst (snd (getDateTime 1970 (snd (setDateTime 1970 (date_in_year 1980) idle_bus)))) =
     Some (date_in_year 2050)"
  by (simp add: setDateTime_def getDateTime_def bus_defs fixture_defs DateTimeRegister_bytes_def
      DateTimeRegister_of_bytes_def encodeDateTime_def decodeDateTime_def fromUncheckedValues_def
      convertBinToBcd_def convertBcdToBin_def)

subsection \<open>The century bit\<close>

text \<open>
  \<open>setDateTime\<close> puts the century bit into the month byte exactly for the years from
  the year base plus 100 on, and \<open>getDateTime\<close> adds the year base, plus 100 under the
  century bit, to the two decoded digits.
\<close>

lemma century_bit_written:
  assumes "unat (getMonth dateTime) < 80"
  shows "bit (r_month (encodeDateTime yearBase dateTime)) 7 =
    (uint yearBase + 100 \<le> uint (getYear dateTime))"
  using assms by (simp add: encodeDateTime_def bit_or_iff bcd_bit7)

lemma century_bit_read:
  "getYear (decodeDateTime yearBase data) =
     word_of_int (uint (convertBcdToBin (r_year data)) +
       (if bit (r_month data) 7 then uint yearBase + 100 else uint yearBase))"
  by (simp add: decodeDateTime_def fromUncheckedValues_def bit7_test uint_up_ucast is_up)

text \<open>
  Claim C6. \<open>setDateTime\<close> sets the century bit of the month register exactly when the
  year is at least the year base plus 100, \<open>getDateTime\<close> computes the year as the two
  decoded digits plus the year base, plus 100 under the century bit, and so the image
  written for the year base plus 150 should decode to the year base plus 150. The first
  two parts hold, as shown above, and the last one holds when the year base is a multiple
  of 100. For any other year base it does not, because \<open>setDateTime\<close> stores the last
  two digits of the year itself: with the year base 1970, the year 2120 is written with
  the century bit and the year byte \<open>0x20\<close>, and is read back as 2090.
\<close>

theorem century_bit_year_base_1970:
  "fst (setDateTime 1970 (date_in_year 2120) idle_bus) = Success \<and>
   trace (snd (setDateTime 1970 (date_in_year 2120) idle_bus)) =
     [WriteRegisterData 0x00 [0x59, 0x22, 0x07, 0x01, 0x02, 0x91, 0x20]] \<and>
   fst (snd (getDateTime 1970 (snd (setDateTime 1970 (date_in_year 2120) idle_bus)))) =
     Some (date_in_year 2090)"
  by (simp add: setDateTime_def getDateTime_def bus_defs fixture_defs DateTimeRegister_bytes_def
      DateTimeRegister_of_bytes_def encodeDateTime_def decodeDateTime_def fromUncheckedValues_def
      convertBinToBcd_def convertBcdToBin_def)

end
